theory Spec2Isabelle
  imports Main "HOL-Library.Word" "HOL-Library.Sublist"
begin

section \<open>Python values used by the driver\<close>

text \<open>
  A Python \<open>str\<close> is a sequence of Unicode code points, a \<open>bytes\<close> object a sequence
  of octets. String literals of the source are written with \<open>ascii\<close>.
\<close>

type_synonym pystr = "nat list"
type_synonym byte = "8 word"

definition ascii :: "string \<Rightarrow> pystr" where
  "ascii s = map of_char s"

text \<open>The literal \<open>"\r"\<close> of \<open>send\<close> and \<open>query\<close>.\<close>

definition CR :: pystr where
  "CR = [0x0D]"

text \<open>
  The exceptions that can travel through the driver. \<open>usb.core.USBTimeoutError\<close> is a
  subclass of \<open>usb.core.USBError\<close>; the constructor \<open>USBError\<close> stands for every
  USB error that is not a timeout, so that \<open>except usb.core.USBTimeoutError\<close> catches
  exactly the constructor \<open>USBTimeoutError\<close>.
\<close>

datatype exn =
    ValueError pystr
  | USBTimeoutError
  | USBError pystr
  | UnicodeDecodeError
  | UnicodeEncodeError

section \<open>UTF-8 decoding and whitespace stripping\<close>

text \<open>
  \<open>bytes.decode("utf-8", errors=...)\<close>. \<open>utf8_decode_one\<close> is one round of the
  decoder's loop on the remaining input: either a code point and the number of bytes it
  took, or a malformed sequence and the number of bytes the error covers (one byte for
  an invalid start byte, the bytes before the offending one for an invalid continuation
  byte, the rest of the input for a sequence cut off by the end of the data). The loop
  never runs a round on an empty input; the first equation only completes the patterns.
\<close>

definition IS_CONTINUATION_BYTE :: "byte \<Rightarrow> bool" where
  "IS_CONTINUATION_BYTE ch \<longleftrightarrow> 0x80 \<le> ch \<and> ch < 0xC0"

datatype utf8_result = Decoded nat nat | Malformed nat

fun utf8_decode_one :: "byte list \<Rightarrow> utf8_result" where
  "utf8_decode_one [] = Malformed 0"
| "utf8_decode_one (ch # s) =
    (if ch < 0x80 then Decoded (unat ch) 1
     else if ch < 0xC2 then Malformed 1
     else if ch < 0xE0 then
       (case s of
          [] \<Rightarrow> Malformed 1
        | ch2 # _ \<Rightarrow>
            if \<not> IS_CONTINUATION_BYTE ch2 then Malformed 1
            else Decoded (unat ch * 64 + unat ch2 - 0x3080) 2)
     else if ch < 0xF0 then
       (case s of
          [] \<Rightarrow> Malformed 1
        | [ch2] \<Rightarrow>
            if \<not> IS_CONTINUATION_BYTE ch2 \<or> (if ch2 < 0xA0 then ch = 0xE0 else ch = 0xED)
            then Malformed 1 else Malformed 2
        | ch2 # ch3 # _ \<Rightarrow>
            if \<not> IS_CONTINUATION_BYTE ch2 then Malformed 1
            else if ch = 0xE0 \<and> ch2 < 0xA0 then Malformed 1
            else if ch = 0xED \<and> 0xA0 \<le> ch2 then Malformed 1
            else if \<not> IS_CONTINUATION_BYTE ch3 then Malformed 2
            else Decoded (unat ch * 4096 + unat ch2 * 64 + unat ch3 - 0xE2080) 3)
     else if ch < 0xF5 then
       (case s of
          [] \<Rightarrow> Malformed 1
        | [ch2] \<Rightarrow>
            if \<not> IS_CONTINUATION_BYTE ch2 \<or> (if ch2 < 0x90 then ch = 0xF0 else ch = 0xF4)
            then Malformed 1 else Malformed 2
        | [ch2, ch3] \<Rightarrow>
            if \<not> IS_CONTINUATION_BYTE ch2 \<or> (if ch2 < 0x90 then ch = 0xF0 else ch = 0xF4)
            then Malformed 1
            else if \<not> IS_CONTINUATION_BYTE ch3 then Malformed 2
            else Malformed 3
        | ch2 # ch3 # ch4 # _ \<Rightarrow>
            if \<not> IS_CONTINUATION_BYTE ch2 then Malformed 1
            else if ch = 0xF0 \<and> ch2 < 0x90 then Malformed 1
            else if ch = 0xF4 \<and> 0x90 \<le> ch2 then Malformed 1
            else if \<not> IS_CONTINUATION_BYTE ch3 then Malformed 2
            else if \<not> IS_CONTINUATION_BYTE ch4 then Malformed 3
            else Decoded (unat ch * 262144 + unat ch2 * 4096 + unat ch3 * 64 + unat ch4
                          - 0x3C82080) 4)
     else Malformed 1)"

text \<open>
  The error handlers: \<open>strict\<close> raises, \<open>ignore\<close> resumes after the malformed
  sequence with nothing added, \<open>replace\<close> resumes with U+FFFD added. A round takes at
  least the byte \<open>ch\<close>, so the loop resumes \<open>n - 1\<close> bytes into the tail.
\<close>

datatype errors = Strict | Ignore | Replace

fun utf8_decode :: "errors \<Rightarrow> byte list \<Rightarrow> exn + pystr" where
  "utf8_decode h [] = Inr []"
| "utf8_decode h (ch # s) =
    (case utf8_decode_one (ch # s) of
       Decoded c n \<Rightarrow> map_sum id ((#) c) (utf8_decode h (drop (n - 1) s))
     | Malformed n \<Rightarrow>
        (case h of
           Strict \<Rightarrow> Inl UnicodeDecodeError
         | Ignore \<Rightarrow> utf8_decode h (drop (n - 1) s)
         | Replace \<Rightarrow> map_sum id ((#) 0xFFFD) (utf8_decode h (drop (n - 1) s))))"

text \<open>
  \<open>str.strip()\<close> with no argument removes the leading and trailing characters for
  which \<open>str.isspace\<close> holds.
\<close>

definition py_isspace :: "nat \<Rightarrow> bool" where
  "py_isspace c \<longleftrightarrow>
     (0x09 \<le> c \<and> c \<le> 0x0D) \<or> (0x1C \<le> c \<and> c \<le> 0x20) \<or> c = 0x85 \<or> c = 0xA0 \<or>
     c = 0x1680 \<or> (0x2000 \<le> c \<and> c \<le> 0x200A) \<or> c = 0x2028 \<or> c = 0x2029 \<or>
     c = 0x202F \<or> c = 0x205F \<or> c = 0x3000"

definition py_strip :: "pystr \<Rightarrow> pystr" where
  "py_strip s = rev (dropWhile py_isspace (rev (dropWhile py_isspace s)))"

section \<open>Formatting of the command parameters\<close>

text \<open>
  The setters interpolate their parameter with an f-string and no format specification:
  \<open>f"{x}"\<close> is \<open>format(x, "")\<close>, which for a \<open>str\<close>, an \<open>int\<close> and a \<open>float\<close> is
  \<open>str(x)\<close>. A finite float is given by what the shortest round-trip conversion of
  \<open>float.__repr__\<close> yields for it: the sign, the decimal digits \<open>d1 d2 ... dn\<close> and
  the position \<open>decpt\<close> of the decimal point, for the value
  \<open>0.d1 d2 ... dn * 10 ^ decpt\<close> (\<open>1000.0\<close> is the digit \<open>1\<close> with \<open>decpt = 4\<close>).
\<close>

datatype pyfloat = Finite bool "nat list" int | Infinity bool | NaN

datatype pyval = PyStr pystr | PyInt int | PyFloat pyfloat

fun digits10 :: "nat \<Rightarrow> nat list" where
  "digits10 n = (if n < 10 then [n] else digits10 (n div 10) @ [n mod 10])"

declare digits10.simps [simp del]

definition digit_chars :: "nat list \<Rightarrow> pystr" where
  "digit_chars ds = map (\<lambda>d. 0x30 + d) ds"

definition int_str :: "int \<Rightarrow> pystr" where
  "int_str i = (if i < 0 then ascii ''-'' else []) @ digit_chars (digits10 (nat \<bar>i\<bar>))"

text \<open>
  \<open>repr\<close> of a float switches to exponent notation when \<open>decpt \<le> -4\<close> or
  \<open>decpt > 16\<close>; the exponent is printed with a sign and at least two digits.
  Otherwise the digits are laid out around the decimal point, padded with zeros, and
  an integral value gets \<open>.0\<close>.
\<close>

definition float_exponent :: "int \<Rightarrow> pystr" where
  "float_exponent e =
     ascii ''e'' @ (if e < 0 then ascii ''-'' else ascii ''+'') @
     (if \<bar>e\<bar> < 10 then ascii ''0'' else []) @ digit_chars (digits10 (nat \<bar>e\<bar>))"

fun float_repr :: "pyfloat \<Rightarrow> pystr" where
  "float_repr NaN = ascii ''nan''"
| "float_repr (Infinity sign) = (if sign then ascii ''-inf'' else ascii ''inf'')"
| "float_repr (Finite sign ds decpt) =
     (if sign then ascii ''-'' else []) @
     (if decpt \<le> -4 \<or> decpt > 16 then
        digit_chars (take 1 ds) @
        (if length ds > 1 then ascii ''.'' @ digit_chars (drop 1 ds) else []) @
        float_exponent (decpt - 1)
      else if decpt \<le> 0 then
        ascii ''0.'' @ replicate (nat (- decpt)) 0x30 @ digit_chars ds
      else if nat decpt < length ds then
        digit_chars (take (nat decpt) ds) @ ascii ''.'' @ digit_chars (drop (nat decpt) ds)
      else
        digit_chars ds @ replicate (nat decpt - length ds) 0x30 @ ascii ''.0'')"

fun py_str :: "pyval \<Rightarrow> pystr" where
  "py_str (PyStr s) = s"
| "py_str (PyInt i) = int_str i"
| "py_str (PyFloat x) = float_repr x"

section \<open>The USB device and the effects of the driver\<close>

text \<open>
  Every call the driver makes to PyUSB, \<open>time.sleep\<close> or \<open>print\<close> is recorded, in
  order, with its outcome. Delays are in milliseconds (\<open>time.sleep(0.05)\<close> is
  \<open>Sleep 50\<close>).
\<close>

datatype event =
    Find int int bool
  | SetConfiguration "exn option"
  | Write nat pystr "exn option"
  | Read nat nat int "exn + byte list"
  | Sleep nat
  | Print "pystr list"

text \<open>
  The device is an oracle: what a call does may depend on everything that happened
  before. \<open>dev_write\<close> says whether the bulk OUT transfer of the payload fails;
  \<open>dev_read\<close> gives the fault of the bulk IN transfer or the data the device has to
  offer, of which \<open>read\<close> returns at most the requested number of bytes.
\<close>

record usb_device =
  dev_set_configuration :: "event list \<Rightarrow> exn option"
  dev_write :: "event list \<Rightarrow> nat \<Rightarrow> pystr \<Rightarrow> exn option"
  dev_read :: "event list \<Rightarrow> nat \<Rightarrow> nat \<Rightarrow> int \<Rightarrow> exn + byte list"

type_synonym usb_bus = "int \<Rightarrow> int \<Rightarrow> usb_device option"

text \<open>A computation takes the trace so far and returns a value or an exception, and the trace.\<close>

type_synonym 'a io = "event list \<Rightarrow> (exn + 'a) \<times> event list"

definition return_io :: "'a \<Rightarrow> 'a io" where
  "return_io x tr = (Inr x, tr)"

definition raise_io :: "exn \<Rightarrow> 'a io" where
  "raise_io e tr = (Inl e, tr)"

definition bind_io :: "'a io \<Rightarrow> ('a \<Rightarrow> 'b io) \<Rightarrow> 'b io" where
  "bind_io m f tr = (case m tr of (Inl e, tr') \<Rightarrow> (Inl e, tr') | (Inr x, tr') \<Rightarrow> f x tr')"

definition lift_io :: "exn + 'a \<Rightarrow> 'a io" where
  "lift_io r tr = (r, tr)"

text \<open>\<open>try: body except E: handler\<close>, where \<open>catches\<close> says which exceptions are an \<open>E\<close>.\<close>

definition try_except :: "'a io \<Rightarrow> (exn \<Rightarrow> bool) \<Rightarrow> 'a io \<Rightarrow> 'a io" where
  "try_except body catches handler tr =
     (case body tr of
        (Inl e, tr') \<Rightarrow> if catches e then handler tr' else (Inl e, tr')
      | (Inr x, tr') \<Rightarrow> (Inr x, tr'))"

definition usb_core_find :: "usb_bus \<Rightarrow> int \<Rightarrow> int \<Rightarrow> usb_device option io" where
  "usb_core_find bus vid pid tr = (Inr (bus vid pid), tr @ [Find vid pid (bus vid pid \<noteq> None)])"

definition usb_set_configuration :: "usb_device \<Rightarrow> unit io" where
  "usb_set_configuration d tr =
     (let r = dev_set_configuration d tr
      in (case r of None \<Rightarrow> Inr () | Some e \<Rightarrow> Inl e, tr @ [SetConfiguration r]))"

definition usb_write :: "usb_device \<Rightarrow> nat \<Rightarrow> pystr \<Rightarrow> unit io" where
  "usb_write d ep payload tr =
     (let r = dev_write d tr ep payload
      in (case r of None \<Rightarrow> Inr () | Some e \<Rightarrow> Inl e, tr @ [Write ep payload r]))"

definition usb_read :: "usb_device \<Rightarrow> nat \<Rightarrow> nat \<Rightarrow> int \<Rightarrow> byte list io" where
  "usb_read d ep len tmo tr =
     (let r = map_sum id (take len) (dev_read d tr ep len tmo)
      in (r, tr @ [Read ep len tmo r]))"

definition time_sleep :: "nat \<Rightarrow> unit io" where
  "time_sleep ms tr = (Inr (), tr @ [Sleep ms])"

definition py_print :: "pystr list \<Rightarrow> unit io" where
  "py_print args tr = (Inr (), tr @ [Print args])"

section \<open>The controller\<close>

record OwonAG051 =
  vendor_id :: int
  product_id :: int
  timeout :: int
  dev :: usb_device

definition OUT_ENDPOINT :: nat where
  "OUT_ENDPOINT = 0x03"

definition IN_ENDPOINT :: nat where
  "IN_ENDPOINT = 0x81"

definition send :: "OwonAG051 \<Rightarrow> pystr \<Rightarrow> unit io" where
  "send self cmd =
     bind_io (usb_write (dev self) OUT_ENDPOINT (cmd @ CR)) (\<lambda>_.
     time_sleep 50)"

definition query :: "OwonAG051 \<Rightarrow> pystr \<Rightarrow> pystr io" where
  "query self cmd =
     bind_io (usb_write (dev self) OUT_ENDPOINT (cmd @ CR)) (\<lambda>_.
     try_except
       (bind_io (usb_read (dev self) IN_ENDPOINT 4096 (timeout self)) (\<lambda>data.
        bind_io (lift_io (utf8_decode Ignore data)) (\<lambda>decoded.
        return_io (py_strip decoded))))
       (\<lambda>e. e = USBTimeoutError)
       (return_io []))"

definition init :: "usb_bus \<Rightarrow> int \<Rightarrow> int \<Rightarrow> int \<Rightarrow> OwonAG051 io" where
  "init bus vid pid tmo =
     bind_io (usb_core_find bus vid pid) (\<lambda>found.
     case found of
       None \<Rightarrow>
         raise_io (ValueError
           (ascii ''OWON AG051 not found. Check USB connection and driver (WinUSB).''))
     | Some d \<Rightarrow>
         (let self = \<lparr>vendor_id = vid, product_id = pid, timeout = tmo, dev = d\<rparr>
          in bind_io (usb_set_configuration d) (\<lambda>_.
             bind_io (query self (ascii ''*IDN?'')) (\<lambda>idn.
             bind_io (py_print [ascii ''Connected:'', idn]) (\<lambda>_.
             return_io self)))))"

definition reset :: "OwonAG051 \<Rightarrow> unit io" where
  "reset self =
     bind_io (send self (ascii ''*RST'')) (\<lambda>_.
     time_sleep 500)"

definition set_function :: "OwonAG051 \<Rightarrow> pyval \<Rightarrow> unit io" where
  "set_function self shape = send self (ascii '':FUNCtion '' @ py_str shape)"

definition set_frequency :: "OwonAG051 \<Rightarrow> pyval \<Rightarrow> unit io" where
  "set_frequency self freq_hz = send self (ascii '':FUNCtion:FREQuency '' @ py_str freq_hz)"

definition set_amplitude :: "OwonAG051 \<Rightarrow> pyval \<Rightarrow> unit io" where
  "set_amplitude self amplitude_vpp =
     send self (ascii '':FUNCtion:AMPLitude '' @ py_str amplitude_vpp)"

definition set_offset :: "OwonAG051 \<Rightarrow> pyval \<Rightarrow> unit io" where
  "set_offset self offset_v = send self (ascii '':FUNCtion:OFFSet '' @ py_str offset_v)"

definition output_on :: "OwonAG051 \<Rightarrow> unit io" where
  "output_on self = send self (ascii '':CHANnel ON'')"

definition output_off :: "OwonAG051 \<Rightarrow> unit io" where
  "output_off self = send self (ascii '':CHANnel OFF'')"

definition configure_waveform :: "OwonAG051 \<Rightarrow> pyval \<Rightarrow> pyval \<Rightarrow> pyval \<Rightarrow> pyval \<Rightarrow> unit io" where
  "configure_waveform self shape freq ampl offset =
     bind_io (set_function self shape) (\<lambda>_.
     bind_io (set_frequency self freq) (\<lambda>_.
     bind_io (set_amplitude self ampl) (\<lambda>_.
     set_offset self offset)))"

definition info :: "OwonAG051 \<Rightarrow> unit io" where
  "info self = bind_io (query self (ascii ''*IDN?'')) (\<lambda>idn. py_print [idn])"

section \<open>Reading a trace\<close>

text \<open>
  The write attempts of a trace, the payloads that were transmitted (the writes that
  did not fail), the read attempts and the delays, each in order.
\<close>

fun write_of :: "event \<Rightarrow> (nat \<times> pystr) list" where
  "write_of (Write ep payload r) = [(ep, payload)]"
| "write_of _ = []"

fun sent_of :: "event \<Rightarrow> (nat \<times> pystr) list" where
  "sent_of (Write ep payload None) = [(ep, payload)]"
| "sent_of _ = []"

fun read_of :: "event \<Rightarrow> (nat \<times> nat \<times> int) list" where
  "read_of (Read ep len tmo r) = [(ep, len, tmo)]"
| "read_of _ = []"

fun delay_of :: "event \<Rightarrow> nat list" where
  "delay_of (Sleep ms) = [ms]"
| "delay_of _ = []"

definition writes :: "event list \<Rightarrow> (nat \<times> pystr) list" where
  "writes tr = concat (map write_of tr)"

definition transmitted :: "event list \<Rightarrow> (nat \<times> pystr) list" where
  "transmitted tr = concat (map sent_of tr)"

definition reads :: "event list \<Rightarrow> (nat \<times> nat \<times> int) list" where
  "reads tr = concat (map read_of tr)"

definition delays :: "event list \<Rightarrow> nat list" where
  "delays tr = concat (map delay_of tr)"

text \<open>
  The commands of the four setters, in the order \<open>configure_waveform\<close> calls them,
  and the events of a \<open>send\<close> that succeeds.
\<close>

definition waveform_commands :: "pyval \<Rightarrow> pyval \<Rightarrow> pyval \<Rightarrow> pyval \<Rightarrow> pystr list" where
  "waveform_commands shape freq ampl offset =
     [ascii '':FUNCtion '' @ py_str shape,
      ascii '':FUNCtion:FREQuency '' @ py_str freq,
      ascii '':FUNCtion:AMPLitude '' @ py_str ampl,
      ascii '':FUNCtion:OFFSet '' @ py_str offset]"

definition send_events :: "pystr \<Rightarrow> event list" where
  "send_events cmd = [Write OUT_ENDPOINT (cmd @ CR) None, Sleep 50]"

section \<open>Plain decimal text\<close>

text \<open>
  What the specification calls plain decimal text: an optional minus sign, one or more
  digits and, optionally, a point followed by one or more digits.
\<close>

definition is_digit :: "nat \<Rightarrow> bool" where
  "is_digit c \<longleftrightarrow> 0x30 \<le> c \<and> c \<le> 0x39"

definition unsigned_decimal_text :: "pystr \<Rightarrow> bool" where
  "unsigned_decimal_text s \<longleftrightarrow>
     (let whole = takeWhile is_digit s; rest = dropWhile is_digit s
      in whole \<noteq> [] \<and>
         (case rest of
            [] \<Rightarrow> True
          | c # frac \<Rightarrow> c = 0x2E \<and> frac \<noteq> [] \<and> list_all is_digit frac))"

definition plain_decimal_text :: "pystr \<Rightarrow> bool" where
  "plain_decimal_text s \<longleftrightarrow>
     (case s of
        [] \<Rightarrow> False
      | c # r \<Rightarrow> if c = 0x2D then unsigned_decimal_text r else unsigned_decimal_text s)"

section \<open>The bytes of a payload\<close>

text \<open>
  The driver hands \<open>write\<close> a \<open>str\<close>; PyUSB transmits its UTF-8 encoding
  (\<open>data.encode('utf-8')\<close>), which is what \<open>utf8_encode\<close> computes. A lone surrogate
  has no encoding.
\<close>

definition utf8_encode_char :: "nat \<Rightarrow> byte list option" where
  "utf8_encode_char c =
     (if c < 0x80 then Some [of_nat c]
      else if c < 0x800 then Some [of_nat (0xC0 + c div 64), of_nat (0x80 + c mod 64)]
      else if 0xD800 \<le> c \<and> c < 0xE000 then None
      else if c < 0x10000 then
        Some [of_nat (0xE0 + c div 4096), of_nat (0x80 + c div 64 mod 64),
              of_nat (0x80 + c mod 64)]
      else if c < 0x110000 then
        Some [of_nat (0xF0 + c div 262144), of_nat (0x80 + c div 4096 mod 64),
              of_nat (0x80 + c div 64 mod 64), of_nat (0x80 + c mod 64)]
      else None)"

fun utf8_encode :: "pystr \<Rightarrow> exn + byte list" where
  "utf8_encode [] = Inr []"
| "utf8_encode (c # s) =
     (case utf8_encode_char c of
        None \<Rightarrow> Inl UnicodeEncodeError
      | Some bs \<Rightarrow> map_sum id ((@) bs) (utf8_encode s))"

section \<open>Devices and controllers used as examples\<close>

text \<open>A device that accepts every write and answers every read with the identity string.\<close>

definition idn_device :: usb_device where
  "idn_device =
     \<lparr>dev_set_configuration = (\<lambda>tr. None),
      dev_write = (\<lambda>tr ep payload. None),
      dev_read = (\<lambda>tr ep len tmo.
        Inr [0x4F, 0x57, 0x4F, 0x4E, 0x2C, 0x41, 0x47, 0x30, 0x35, 0x31, 0x2C,
             0x31, 0x32, 0x33, 0x34, 0x35, 0x2C, 0x31, 0x2E, 0x30, 0x0D, 0x0A])\<rparr>"

text \<open>A device that accepts every write and never answers.\<close>

definition silent_device :: usb_device where
  "silent_device =
     \<lparr>dev_set_configuration = (\<lambda>tr. None),
      dev_write = (\<lambda>tr ep payload. None),
      dev_read = (\<lambda>tr ep len tmo. Inl USBTimeoutError)\<rparr>"

text \<open>A device whose IN endpoint is stalled.\<close>

definition stalled_device :: usb_device where
  "stalled_device =
     \<lparr>dev_set_configuration = (\<lambda>tr. None),
      dev_write = (\<lambda>tr ep payload. None),
      dev_read = (\<lambda>tr ep len tmo. Inl (USBError (ascii ''Pipe error'')))\<rparr>"

text \<open>A device that was unplugged: every transfer fails.\<close>

definition unplugged_device :: usb_device where
  "unplugged_device =
     \<lparr>dev_set_configuration = (\<lambda>tr. Some (USBError (ascii ''No such device''))),
      dev_write = (\<lambda>tr ep payload. Some (USBError (ascii ''No such device''))),
      dev_read = (\<lambda>tr ep len tmo. Inl (USBError (ascii ''No such device'')))\<rparr>"

text \<open>A device that accepts one write and fails the second one.\<close>

definition second_write_fails_device :: usb_device where
  "second_write_fails_device =
     \<lparr>dev_set_configuration = (\<lambda>tr. None),
      dev_write = (\<lambda>tr ep payload.
        if length (writes tr) = 1 then Some (USBError (ascii ''Input/Output Error''))
        else None),
      dev_read = (\<lambda>tr ep len tmo. Inl USBTimeoutError)\<rparr>"



text \<open>A device that answers every read with 5000 bytes \<open>A\<close>.\<close>

definition verbose_device :: usb_device where
  "verbose_device =
     \<lparr>dev_set_configuration = (\<lambda>tr. None),
      dev_write = (\<lambda>tr ep payload. None),
      dev_read = (\<lambda>tr ep len tmo. Inr (replicate 5000 0x41))\<rparr>"

text \<open>The controller object with the constructor's default arguments, on a given device.\<close>

definition controller :: "usb_device \<Rightarrow> OwonAG051" where
  "controller d = \<lparr>vendor_id = 0x5345, product_id = 0x1234, timeout = 1000, dev = d\<rparr>"

text \<open>A bus with nothing attached.\<close>

definition empty_bus :: usb_bus where
  "empty_bus = (\<lambda>vid pid. None)"

declare utf8_decode_one.simps [simp del]

lemma utf8_decode_ignore_total: "\<exists>s. utf8_decode Ignore bs = Inr s"
proof (induction bs rule: length_induct)
  case (1 bs)
  show ?case
  proof (cases bs)
    case Nil
    then show ?thesis by simp
  next
    case (Cons ch s)
    have len: "length (drop k s) < length bs" for k
      using Cons by simp
    show ?thesis
    proof (cases "utf8_decode_one (ch # s)")
      case (Decoded c n)
      from 1 len obtain r where "utf8_decode Ignore (drop (n - 1) s) = Inr r"
        by blast
      with Cons Decoded show ?thesis by simp
    next
      case (Malformed n)
      from 1 len obtain r where "utf8_decode Ignore (drop (n - 1) s) = Inr r"
        by blast
      with Cons Malformed show ?thesis by simp
    qed
  qed
qed

section \<open>How \<open>send\<close> and \<open>query\<close> run\<close>

lemma send_run:
  "send self cmd tr =
     (case dev_write (dev self) tr OUT_ENDPOINT (cmd @ CR) of
        None \<Rightarrow> (Inr (), tr @ [Write OUT_ENDPOINT (cmd @ CR) None, Sleep 50])
      | Some e \<Rightarrow> (Inl e, tr @ [Write OUT_ENDPOINT (cmd @ CR) (Some e)]))"
  by (simp add: send_def bind_io_def usb_write_def time_sleep_def Let_def split: option.splits)

lemma query_write_failed:
  "dev_write (dev self) tr OUT_ENDPOINT (cmd @ CR) = Some e \<Longrightarrow>
   query self cmd tr = (Inl e, tr @ [Write OUT_ENDPOINT (cmd @ CR) (Some e)])"
  by (simp add: query_def bind_io_def usb_write_def Let_def)

lemma query_read_failed:
  "dev_write (dev self) tr OUT_ENDPOINT (cmd @ CR) = None \<Longrightarrow>
   dev_read (dev self) (tr @ [Write OUT_ENDPOINT (cmd @ CR) None]) IN_ENDPOINT 4096
     (timeout self) = Inl e \<Longrightarrow>
   query self cmd tr =
     (if e = USBTimeoutError then Inr [] else Inl e,
      tr @ [Write OUT_ENDPOINT (cmd @ CR) None, Read IN_ENDPOINT 4096 (timeout self) (Inl e)])"
  by (simp add: query_def bind_io_def usb_write_def usb_read_def try_except_def return_io_def
      Let_def)

lemma query_read_data:
  "dev_write (dev self) tr OUT_ENDPOINT (cmd @ CR) = None \<Longrightarrow>
   dev_read (dev self) (tr @ [Write OUT_ENDPOINT (cmd @ CR) None]) IN_ENDPOINT 4096
     (timeout self) = Inr resp \<Longrightarrow>
   utf8_decode Ignore (take 4096 resp) = Inr s \<Longrightarrow>
   query self cmd tr =
     (Inr (py_strip s),
      tr @ [Write OUT_ENDPOINT (cmd @ CR) None,
            Read IN_ENDPOINT 4096 (timeout self) (Inr (take 4096 resp))])"
  by (simp add: query_def bind_io_def usb_write_def usb_read_def try_except_def return_io_def
      lift_io_def Let_def)

lemma utf8_decode_ascii:
  "list_all (\<lambda>b. b < 0x80) bs \<Longrightarrow> utf8_decode h bs = Inr (map unat bs)"
  by (induction bs) (simp_all add: utf8_decode_one.simps)

lemma utf8_encode_append:
  "utf8_encode (s @ t) =
     (case utf8_encode s of Inl e \<Rightarrow> Inl e
      | Inr bs \<Rightarrow> map_sum id ((@) bs) (utf8_encode t))"
proof (induction s)
  case Nil
  show ?case by (cases "utf8_encode t") simp_all
next
  case (Cons c s)
  show ?case
    by (cases "utf8_encode_char c"; cases "utf8_encode s"; cases "utf8_encode t")
       (simp_all add: Cons)
qed

lemma writes_append: "writes (tr @ tr') = writes tr @ writes tr'"
  by (simp add: writes_def)

lemma reads_append: "reads (tr @ tr') = reads tr @ reads tr'"
  by (simp add: reads_def)

lemma transmitted_append: "transmitted (tr @ tr') = transmitted tr @ transmitted tr'"
  by (simp add: transmitted_def)

lemma delays_append: "delays (tr @ tr') = delays tr @ delays tr'"
  by (simp add: delays_def)

lemma query_cases [case_names write_failed read_failed read_data]:
  obtains
    e where "dev_write (dev self) tr OUT_ENDPOINT (cmd @ CR) = Some e"
      and "query self cmd tr = (Inl e, tr @ [Write OUT_ENDPOINT (cmd @ CR) (Some e)])"
  | e where "dev_write (dev self) tr OUT_ENDPOINT (cmd @ CR) = None"
      and "dev_read (dev self) (tr @ [Write OUT_ENDPOINT (cmd @ CR) None]) IN_ENDPOINT 4096
             (timeout self) = Inl e"
      and "query self cmd tr =
             (if e = USBTimeoutError then Inr [] else Inl e,
              tr @ [Write OUT_ENDPOINT (cmd @ CR) None,
                    Read IN_ENDPOINT 4096 (timeout self) (Inl e)])"
  | resp s where "dev_write (dev self) tr OUT_ENDPOINT (cmd @ CR) = None"
      and "dev_read (dev self) (tr @ [Write OUT_ENDPOINT (cmd @ CR) None]) IN_ENDPOINT 4096
             (timeout self) = Inr resp"
      and "utf8_decode Ignore (take 4096 resp) = Inr s"
      and "query self cmd tr =
             (Inr (py_strip s),
              tr @ [Write OUT_ENDPOINT (cmd @ CR) None,
                    Read IN_ENDPOINT 4096 (timeout self) (Inr (take 4096 resp))])"
proof (cases "dev_write (dev self) tr OUT_ENDPOINT (cmd @ CR)")
  case (Some e)
  with that(1) show ?thesis by (simp add: query_write_failed)
next
  case None
  show ?thesis
  proof (cases "dev_read (dev self) (tr @ [Write OUT_ENDPOINT (cmd @ CR) None]) IN_ENDPOINT
                  4096 (timeout self)")
    case (Inl e)
    with None that(2) show ?thesis by (simp add: query_read_failed)
  next
    case (Inr resp)
    obtain s where "utf8_decode Ignore (take 4096 resp) = Inr s"
      using utf8_decode_ignore_total by blast
    with None Inr that(3) show ?thesis by (simp add: query_read_data)
  qed
qed


lemma reads_send: "reads (snd (send self cmd tr)) = reads tr"
  by (simp add: send_run reads_def split: option.splits)

lemma reads_bind:
  assumes "\<And>tr. reads (snd (m tr)) = reads tr"
    and "\<And>x tr. reads (snd (f x tr)) = reads tr"
  shows "reads (snd (bind_io m f tr)) = reads tr"
proof (cases "m tr")
  case (Pair r tr')
  with assms(1) [of tr] have tr': "reads tr' = reads tr" by simp
  show ?thesis
  proof (cases r)
    case (Inl e)
    with Pair tr' show ?thesis by (simp add: bind_io_def)
  next
    case (Inr x)
    with Pair tr' assms(2) [of x tr'] show ?thesis by (simp add: bind_io_def)
  qed
qed

lemma reads_time_sleep: "reads (snd (time_sleep ms tr)) = reads tr"
  by (simp add: time_sleep_def reads_def)

lemma reads_configure_waveform:
  "reads (snd (configure_waveform self shape freq ampl offset tr)) = reads tr"
  unfolding configure_waveform_def set_function_def set_frequency_def set_amplitude_def
    set_offset_def
  by (intro reads_bind reads_send)

lemma reads_query:
  "\<exists>k\<le>1. reads (snd (query self cmd tr)) = reads tr @ replicate k (IN_ENDPOINT, 4096, timeout self)"
proof (cases self tr cmd rule: query_cases)
  case (write_failed e)
  then have "reads (snd (query self cmd tr)) = reads tr @ replicate 0 (IN_ENDPOINT, 4096, timeout self)"
    by (simp add: reads_def)
  then show ?thesis by blast
next
  case (read_failed e)
  then have "reads (snd (query self cmd tr)) = reads tr @ replicate 1 (IN_ENDPOINT, 4096, timeout self)"
    by (simp add: reads_def)
  then show ?thesis by blast
next
  case (read_data resp s)
  then have "reads (snd (query self cmd tr)) = reads tr @ replicate 1 (IN_ENDPOINT, 4096, timeout self)"
    by (simp add: reads_def)
  then show ?thesis by blast
qed

lemma reads_init:
  "\<exists>k\<le>1. reads (snd (init bus vid pid tmo tr)) = reads tr @ replicate k (IN_ENDPOINT, 4096, tmo)"
proof (cases "bus vid pid")
  case None
  then have "reads (snd (init bus vid pid tmo tr)) = reads tr @ replicate 0 (IN_ENDPOINT, 4096, tmo)"
    by (simp add: init_def bind_io_def usb_core_find_def raise_io_def reads_def)
  then show ?thesis by blast
next
  case (Some d)
  define self where "self = \<lparr>vendor_id = vid, product_id = pid, timeout = tmo, dev = d\<rparr>"
  define tr0 where "tr0 = tr @ [Find vid pid True]"
  show ?thesis
  proof (cases "dev_set_configuration d tr0")
    case (Some e)
    with \<open>bus vid pid = Some d\<close>
    have "reads (snd (init bus vid pid tmo tr)) = reads tr @ replicate 0 (IN_ENDPOINT, 4096, tmo)"
      by (simp add: init_def bind_io_def usb_core_find_def usb_set_configuration_def Let_def
          reads_def tr0_def)
    then show ?thesis by blast
  next
    case None
    define tr1 where "tr1 = tr0 @ [SetConfiguration None]"
    obtain k where k: "k \<le> 1"
      "reads (snd (query self (ascii ''*IDN?'') tr1)) =
         reads tr1 @ replicate k (IN_ENDPOINT, 4096, timeout self)"
      using reads_query by blast
    have tr1: "reads tr1 = reads tr" by (simp add: tr1_def tr0_def reads_def)
    have "reads (snd (init bus vid pid tmo tr)) = reads (snd (query self (ascii ''*IDN?'') tr1))"
      using \<open>bus vid pid = Some d\<close> None
      by (cases "query self (ascii ''*IDN?'') tr1")
         (auto simp add: init_def bind_io_def usb_core_find_def usb_set_configuration_def Let_def
          tr0_def tr1_def self_def py_print_def return_io_def reads_def split: sum.splits)
    with k tr1 have "reads (snd (init bus vid pid tmo tr)) = reads tr @ replicate k (IN_ENDPOINT, 4096, tmo)"
      by (simp add: self_def)
    with k(1) show ?thesis by blast
  qed
qed

lemma configure_waveform_run:
  "configure_waveform self shape freq ampl offset =
     bind_io (send self (waveform_commands shape freq ampl offset ! 0)) (\<lambda>_.
     bind_io (send self (waveform_commands shape freq ampl offset ! 1)) (\<lambda>_.
     bind_io (send self (waveform_commands shape freq ampl offset ! 2)) (\<lambda>_.
     send self (waveform_commands shape freq ampl offset ! 3))))"
  by (simp add: configure_waveform_def set_function_def set_frequency_def set_amplitude_def
      set_offset_def waveform_commands_def)

lemma send_ok:
  "dev_write (dev self) tr OUT_ENDPOINT (cmd @ CR) = None \<Longrightarrow>
   send self cmd tr = (Inr (), tr @ send_events cmd)"
  by (simp add: send_run send_events_def)

lemma send_failed:
  "dev_write (dev self) tr OUT_ENDPOINT (cmd @ CR) = Some e \<Longrightarrow>
   send self cmd tr = (Inl e, tr @ [Write OUT_ENDPOINT (cmd @ CR) (Some e)])"
  by (simp add: send_run)

lemma transmitted_send_events: "transmitted (send_events cmd) = [(OUT_ENDPOINT, cmd @ CR)]"
  by (simp add: send_events_def transmitted_def)

lemma writes_send_events: "writes (send_events cmd) = [(OUT_ENDPOINT, cmd @ CR)]"
  by (simp add: send_events_def writes_def)

lemma length_waveform_commands: "length (waveform_commands shape freq ampl offset) = 4"
  by (simp add: waveform_commands_def)

lemma replicate_numeral: "replicate (numeral k) x = x # replicate (pred_numeral k) x"
  by (simp add: numeral_eq_Suc)

lemma digits10_digits: "d \<in> set (digits10 n) \<Longrightarrow> d < 10"
  by (induction n rule: digits10.induct) (subst (asm) digits10.simps, auto split: if_splits)

lemma digits10_not_Nil: "digits10 n \<noteq> []"
  by (subst digits10.simps) simp

lemma is_digit_digit_chars: "\<forall>d\<in>set ds. d < 10 \<Longrightarrow> list_all is_digit (digit_chars ds)"
  by (induction ds) (simp_all add: digit_chars_def is_digit_def)

lemma unsigned_decimal_whole:
  assumes "list_all is_digit a" "a \<noteq> []"
  shows "unsigned_decimal_text a"
proof -
  from assms(1) have "takeWhile is_digit a = a" "dropWhile is_digit a = []"
    by (simp_all add: list_all_iff)
  then show ?thesis
    unfolding unsigned_decimal_text_def Let_def using assms(2) by (simp only: list.case simp_thms)
qed

lemma unsigned_decimal_point:
  assumes "list_all is_digit a" "a \<noteq> []" "list_all is_digit b" "b \<noteq> []"
  shows "unsigned_decimal_text (a @ 0x2E # b)"
proof -
  have "\<not> is_digit 0x2E" by (simp add: is_digit_def)
  with assms(1) have "takeWhile is_digit (a @ 0x2E # b) = a"
    "dropWhile is_digit (a @ 0x2E # b) = 0x2E # b"
    by (simp_all add: list_all_iff takeWhile_append2 dropWhile_append2)
  then show ?thesis
    unfolding unsigned_decimal_text_def Let_def using assms by (simp only: list.case simp_thms)
qed

lemma unsigned_decimal_stopped:
  assumes "list_all is_digit a" "\<not> is_digit c"
    and "unsigned_decimal_text (a @ c # r)"
  shows "c = 0x2E \<and> list_all is_digit r"
proof -
  from assms(1,2) have "dropWhile is_digit (a @ c # r) = c # r"
    by (simp add: list_all_iff dropWhile_append2)
  with assms(3) show ?thesis
    unfolding unsigned_decimal_text_def Let_def by (simp only: list.case simp_thms)
qed

lemma plain_decimal_unsigned:
  assumes "list_all is_digit a" "a \<noteq> []"
  shows "plain_decimal_text (a @ r) = unsigned_decimal_text (a @ r)"
proof -
  from assms obtain c a' where a: "a = c # a'" "is_digit c" by (cases a) auto
  then have "c \<noteq> 0x2D" by (auto simp: is_digit_def)
  with a show ?thesis by (simp add: plain_decimal_text_def)
qed

lemma plain_decimal_minus: "plain_decimal_text (ascii ''-'' @ s) = unsigned_decimal_text s"
  by (simp add: plain_decimal_text_def ascii_def)

lemma plain_decimal_int_str: "plain_decimal_text (int_str i)"
proof -
  have d: "list_all is_digit (digit_chars (digits10 (nat \<bar>i\<bar>)))"
    by (rule is_digit_digit_chars) (simp add: digits10_digits)
  have n: "digit_chars (digits10 (nat \<bar>i\<bar>)) \<noteq> []"
    by (simp add: digit_chars_def digits10_not_Nil)
  show ?thesis
  proof (cases "i < 0")
    case True
    with d n show ?thesis
      by (simp add: int_str_def plain_decimal_minus unsigned_decimal_whole)
  next
    case False
    with d n plain_decimal_unsigned [of "digit_chars (digits10 (nat \<bar>i\<bar>))" "[]"]
    show ?thesis
      by (simp add: int_str_def unsigned_decimal_whole)
  qed
qed

lemma plain_decimal_float_positional:
  assumes ds: "ds \<noteq> []" "\<forall>d\<in>set ds. d < 10" and range: "-4 < decpt" "decpt \<le> 16"
  shows "plain_decimal_text (float_repr (Finite sign ds decpt))"
proof -
  have all: "list_all is_digit (digit_chars ds)"
    using ds(2) by (rule is_digit_digit_chars)
  have zeros: "list_all is_digit (replicate k 0x30)" for k
    by (simp add: list_all_iff is_digit_def)
  have nonempty: "digit_chars ds \<noteq> []"
    using ds(1) by (simp add: digit_chars_def)
  have body: "unsigned_decimal_text
     (if decpt \<le> 0 then ascii ''0.'' @ replicate (nat (- decpt)) 0x30 @ digit_chars ds
      else if nat decpt < length ds then
        digit_chars (take (nat decpt) ds) @ ascii ''.'' @ digit_chars (drop (nat decpt) ds)
      else digit_chars ds @ replicate (nat decpt - length ds) 0x30 @ ascii ''.0'')"
    (is "unsigned_decimal_text ?body")
  proof (cases "decpt \<le> 0")
    case True
    have "unsigned_decimal_text ([0x30] @ 0x2E # (replicate (nat (- decpt)) 0x30 @ digit_chars ds))"
      using all zeros nonempty by (intro unsigned_decimal_point) (simp_all add: is_digit_def)
    with True show ?thesis by (simp add: ascii_def)
  next
    case False
    show ?thesis
    proof (cases "nat decpt < length ds")
      case True
      have "\<forall>d\<in>set (take (nat decpt) ds). d < 10" "\<forall>d\<in>set (drop (nat decpt) ds). d < 10"
        using ds(2) by (auto dest: in_set_takeD in_set_dropD)
      then have "list_all is_digit (digit_chars (take (nat decpt) ds))"
        "list_all is_digit (digit_chars (drop (nat decpt) ds))"
        by (simp_all add: is_digit_digit_chars)
      moreover have "digit_chars (take (nat decpt) ds) \<noteq> []"
        "digit_chars (drop (nat decpt) ds) \<noteq> []"
        using True False ds(1) by (simp_all add: digit_chars_def)
      ultimately have "unsigned_decimal_text
         (digit_chars (take (nat decpt) ds) @ 0x2E # digit_chars (drop (nat decpt) ds))"
        by (intro unsigned_decimal_point)
      with True False show ?thesis by (simp add: ascii_def)
    next
      case long: False
      have "unsigned_decimal_text
         ((digit_chars ds @ replicate (nat decpt - length ds) 0x30) @ 0x2E # [0x30])"
        using all zeros nonempty by (intro unsigned_decimal_point) (simp_all add: is_digit_def)
      with False long show ?thesis by (simp add: ascii_def)
    qed
  qed
  have first: "plain_decimal_text ?body = unsigned_decimal_text ?body"
  proof (cases "decpt \<le> 0")
    case True
    with plain_decimal_unsigned [of "[0x30]"] show ?thesis
      by (simp add: ascii_def is_digit_def)
  next
    case False
    show ?thesis
    proof (cases "nat decpt < length ds")
      case True
      have "\<forall>d\<in>set (take (nat decpt) ds). d < 10"
        using ds(2) by (auto dest: in_set_takeD)
      then have "list_all is_digit (digit_chars (take (nat decpt) ds))"
        by (simp add: is_digit_digit_chars)
      moreover have "digit_chars (take (nat decpt) ds) \<noteq> []"
        using False ds(1) by (simp add: digit_chars_def)
      ultimately show ?thesis
        using True False by (simp add: plain_decimal_unsigned)
    next
      case long: False
      with False all nonempty show ?thesis by (simp add: plain_decimal_unsigned)
    qed
  qed
  show ?thesis
  proof (cases sign)
    case True
    with range body show ?thesis
      by (simp add: plain_decimal_minus del: append_Cons append_Nil append_assoc)
  next
    case False
    with range body first show ?thesis by simp
  qed
qed

lemma not_plain_decimal_float_exponent:
  assumes ds: "\<forall>d\<in>set ds. d < 10" and range: "decpt \<le> -4 \<or> 16 < decpt"
  shows "\<not> plain_decimal_text (float_repr (Finite sign ds decpt))"
proof -
  define a where "a = digit_chars (take 1 ds)"
  define ex where "ex = (if decpt - 1 < 0 then ascii ''-'' else ascii ''+'') @
     (if \<bar>decpt - 1\<bar> < 10 then ascii ''0'' else []) @ digit_chars (digits10 (nat \<bar>decpt - 1\<bar>))"
  have a: "list_all is_digit a"
    unfolding a_def using ds by (intro is_digit_digit_chars) (auto dest: in_set_takeD)
  have e: "float_exponent (decpt - 1) = 0x65 # ex"
    by (simp add: float_exponent_def ex_def ascii_def)
  have not_e: "\<not> is_digit 0x65" "\<not> is_digit 0x2E" by (simp_all add: is_digit_def)
  have body: "\<not> unsigned_decimal_text
     (a @ (if length ds > 1 then ascii ''.'' @ digit_chars (drop 1 ds) else []) @ 0x65 # ex)"
    (is "\<not> unsigned_decimal_text ?body")
  proof (cases "length ds > 1")
    case True
    have "\<not> list_all is_digit (digit_chars (drop 1 ds) @ 0x65 # ex)"
      using not_e by simp
    with unsigned_decimal_stopped [OF a not_e(2), of "digit_chars (drop 1 ds) @ 0x65 # ex"] True
    show ?thesis by (auto simp: ascii_def)
  next
    case False
    with unsigned_decimal_stopped [OF a not_e(1), of ex] show ?thesis by auto
  qed
  have first: "plain_decimal_text ?body = unsigned_decimal_text ?body"
  proof (cases "a = []")
    case True
    then show ?thesis
      by (cases "length ds > 1") (simp_all add: plain_decimal_text_def ascii_def)
  next
    case False
    with a show ?thesis by (rule plain_decimal_unsigned)
  qed
  show ?thesis
  proof (cases sign)
    case True
    with range body e show ?thesis
      by (simp add: a_def plain_decimal_minus del: append_Cons append_Nil append_assoc)
  next
    case False
    with range body first e show ?thesis by (simp add: a_def)
  qed
qed




section \<open>Decoding what was encoded\<close>




















section \<open>The claims\<close>

text \<open>
  C1. A \<open>query\<close> whose read attempt times out returns the empty string as a normal
  result. A read that fails with any other exception raises that exception unchanged,
  and so does a write that fails (with any exception, a timeout included: the write is
  outside the \<open>try\<close>).
\<close>

theorem query_timeout_is_empty_response:
  "(dev_write (dev self) tr OUT_ENDPOINT (cmd @ CR) = None \<and>
    dev_read (dev self) (tr @ [Write OUT_ENDPOINT (cmd @ CR) None]) IN_ENDPOINT 4096
      (timeout self) = Inl USBTimeoutError
    \<longrightarrow> fst (query self cmd tr) = Inr []) \<and>
   (dev_write (dev self) tr OUT_ENDPOINT (cmd @ CR) = None \<and>
    dev_read (dev self) (tr @ [Write OUT_ENDPOINT (cmd @ CR) None]) IN_ENDPOINT 4096
      (timeout self) = Inl e \<and> e \<noteq> USBTimeoutError
    \<longrightarrow> fst (query self cmd tr) = Inl e) \<and>
   (dev_write (dev self) tr OUT_ENDPOINT (cmd @ CR) = Some e'
    \<longrightarrow> fst (query self cmd tr) = Inl e')"
  by (simp add: query_write_failed query_read_failed)

theorem query_timeout_is_empty_response_witness:
  "fst (query (controller silent_device) (ascii ''*RST'') []) = Inr [] \<and>
   fst (query (controller stalled_device) (ascii ''*IDN?'') []) =
     Inl (USBError (ascii ''Pipe error'')) \<and>
   fst (query (controller unplugged_device) (ascii ''*IDN?'') []) =
     Inl (USBError (ascii ''No such device''))"
  using query_timeout_is_empty_response
          [of "controller silent_device" "[]" "ascii ''*RST''" "USBError []" "USBError []"]
        query_timeout_is_empty_response
          [of "controller stalled_device" "[]" "ascii ''*IDN?''"
              "USBError (ascii ''Pipe error'')" "USBError []"]
        query_timeout_is_empty_response
          [of "controller unplugged_device" "[]" "ascii ''*IDN?''" "USBError []"
              "USBError (ascii ''No such device'')"]
  by (simp add: controller_def silent_device_def stalled_device_def unplugged_device_def)


text \<open>
  C2. \<open>send\<close> makes exactly one write, of the command followed by one carriage
  return, also when the command already ends with one (it then ends with two). When the
  device accepts the write, \<open>send\<close> returns after the 50 ms delay and that payload,
  and nothing else, has been transmitted (by \<open>query\<close> too); when the write fails,
  its exception is raised and nothing has been transmitted. The bytes on the wire are
  the bytes of the command followed by the byte \<open>0x0D\<close>; for \<open>"*RST"\<close> they are
  \<open>b"*RST\\r"\<close>.
\<close>

theorem send_appends_one_carriage_return:
  "send self cmd tr =
     (case dev_write (dev self) tr OUT_ENDPOINT (cmd @ [0x0D]) of
        None \<Rightarrow> (Inr (), tr @ [Write OUT_ENDPOINT (cmd @ [0x0D]) None, Sleep 50])
      | Some e \<Rightarrow> (Inl e, tr @ [Write OUT_ENDPOINT (cmd @ [0x0D]) (Some e)])) \<and>
   (dev_write (dev self) tr OUT_ENDPOINT (cmd @ [0x0D]) = None \<longrightarrow>
      fst (send self cmd tr) = Inr () \<and>
      transmitted (snd (send self cmd tr)) = transmitted tr @ [(OUT_ENDPOINT, cmd @ [0x0D])] \<and>
      transmitted (snd (query self cmd tr)) = transmitted tr @ [(OUT_ENDPOINT, cmd @ [0x0D])]) \<and>
   writes (snd (send self cmd tr)) = writes tr @ [(OUT_ENDPOINT, cmd @ [0x0D])] \<and>
   writes (snd (query self cmd tr)) = writes tr @ [(OUT_ENDPOINT, cmd @ [0x0D])] \<and>
   writes (snd (send self (cmd @ [0x0D]) tr)) = writes tr @ [(OUT_ENDPOINT, cmd @ [0x0D, 0x0D])] \<and>
   (fst (send self cmd tr) = Inr () \<longrightarrow>
      transmitted (snd (send self cmd tr)) = transmitted tr @ [(OUT_ENDPOINT, cmd @ [0x0D])]) \<and>
   utf8_encode (cmd @ [0x0D]) = map_sum id (\<lambda>bs. bs @ [0x0D]) (utf8_encode cmd)"
proof (intro conjI)
  show "send self cmd tr =
     (case dev_write (dev self) tr OUT_ENDPOINT (cmd @ [0x0D]) of
        None \<Rightarrow> (Inr (), tr @ [Write OUT_ENDPOINT (cmd @ [0x0D]) None, Sleep 50])
      | Some e \<Rightarrow> (Inl e, tr @ [Write OUT_ENDPOINT (cmd @ [0x0D]) (Some e)]))"
    by (simp add: send_run CR_def split: option.splits)
  show "dev_write (dev self) tr OUT_ENDPOINT (cmd @ [0x0D]) = None \<longrightarrow>
      fst (send self cmd tr) = Inr () \<and>
      transmitted (snd (send self cmd tr)) = transmitted tr @ [(OUT_ENDPOINT, cmd @ [0x0D])] \<and>
      transmitted (snd (query self cmd tr)) = transmitted tr @ [(OUT_ENDPOINT, cmd @ [0x0D])]"
  proof
    assume ok: "dev_write (dev self) tr OUT_ENDPOINT (cmd @ [0x0D]) = None"
    then have s: "send self cmd tr =
        (Inr (), tr @ [Write OUT_ENDPOINT (cmd @ [0x0D]) None, Sleep 50])"
      by (simp add: send_run CR_def)
    have q: "transmitted (snd (query self cmd tr)) =
        transmitted tr @ [(OUT_ENDPOINT, cmd @ [0x0D])]"
      using ok
      by (cases self tr cmd rule: query_cases)
         (simp_all add: CR_def transmitted_append, simp_all add: transmitted_def)
    from s q show "fst (send self cmd tr) = Inr () \<and>
      transmitted (snd (send self cmd tr)) = transmitted tr @ [(OUT_ENDPOINT, cmd @ [0x0D])] \<and>
      transmitted (snd (query self cmd tr)) = transmitted tr @ [(OUT_ENDPOINT, cmd @ [0x0D])]"
      by (simp add: transmitted_append) (simp add: transmitted_def)
  qed
  show "fst (send self cmd tr) = Inr () \<longrightarrow>
      transmitted (snd (send self cmd tr)) = transmitted tr @ [(OUT_ENDPOINT, cmd @ [0x0D])]"
    by (simp add: send_run transmitted_append CR_def split: option.splits)
       (simp add: transmitted_def)
  show "writes (snd (send self (cmd @ [0x0D]) tr)) = writes tr @ [(OUT_ENDPOINT, cmd @ [0x0D, 0x0D])]"
    by (simp add: send_run writes_append CR_def split: option.splits) (simp add: writes_def)
  show "writes (snd (send self cmd tr)) = writes tr @ [(OUT_ENDPOINT, cmd @ [0x0D])]"
    by (simp add: send_run writes_append CR_def split: option.splits) (simp add: writes_def)
  show "writes (snd (query self cmd tr)) = writes tr @ [(OUT_ENDPOINT, cmd @ [0x0D])]"
    by (cases self tr cmd rule: query_cases) (simp_all add: writes_append CR_def, simp_all add: writes_def)
  have "utf8_encode [0x0D] = Inr [0x0D]"
    by (simp add: utf8_encode_char_def)
  then show "utf8_encode (cmd @ [0x0D]) = map_sum id (\<lambda>bs. bs @ [0x0D]) (utf8_encode cmd)"
    by (cases "utf8_encode cmd") (simp_all add: utf8_encode_append)
qed

theorem send_appends_one_carriage_return_witness:
  "send (controller idn_device) (ascii ''*RST'') [] =
     (Inr (), [Write 0x03 [0x2A, 0x52, 0x53, 0x54, 0x0D] None, Sleep 50]) \<and>
   transmitted (snd (send (controller idn_device) (ascii ''*RST'') [])) =
     [(0x03, [0x2A, 0x52, 0x53, 0x54, 0x0D])] \<and>
   transmitted (snd (query (controller idn_device) (ascii ''*RST'') [])) =
     [(0x03, [0x2A, 0x52, 0x53, 0x54, 0x0D])] \<and>
   send (controller unplugged_device) (ascii ''*RST'') [] =
     (Inl (USBError (ascii ''No such device'')),
      [Write 0x03 [0x2A, 0x52, 0x53, 0x54, 0x0D]
         (Some (USBError (ascii ''No such device'')))]) \<and>
   writes (snd (send (controller idn_device) (ascii ''*RST'') [])) =
     [(0x03, [0x2A, 0x52, 0x53, 0x54, 0x0D])] \<and>
   utf8_encode [0x2A, 0x52, 0x53, 0x54, 0x0D] = Inr [0x2A, 0x52, 0x53, 0x54, 0x0D]"
proof -
  let ?c = "controller idn_device" and ?u = "controller unplugged_device"
  have ok: "dev_write (dev ?c) [] OUT_ENDPOINT (ascii ''*RST'' @ [0x0D]) = None"
    by (simp add: controller_def idn_device_def)
  have bad: "dev_write (dev ?u) [] OUT_ENDPOINT (ascii ''*RST'' @ [0x0D]) =
      Some (USBError (ascii ''No such device''))"
    by (simp add: controller_def unplugged_device_def)
  note good = send_appends_one_carriage_return [of ?c "ascii ''*RST''" "[]"]
  note fail = send_appends_one_carriage_return [of ?u "ascii ''*RST''" "[]"]
  from good ok have a: "send ?c (ascii ''*RST'') [] =
      (Inr (), [Write OUT_ENDPOINT (ascii ''*RST'' @ [0x0D]) None, Sleep 50])"
    by simp
  from good ok have b: "transmitted (snd (send ?c (ascii ''*RST'') [])) =
      transmitted [] @ [(OUT_ENDPOINT, ascii ''*RST'' @ [0x0D])]"
    "transmitted (snd (query ?c (ascii ''*RST'') [])) =
      transmitted [] @ [(OUT_ENDPOINT, ascii ''*RST'' @ [0x0D])]"
    by blast+
  from fail bad have c: "send ?u (ascii ''*RST'') [] =
      (Inl (USBError (ascii ''No such device'')),
       [Write OUT_ENDPOINT (ascii ''*RST'' @ [0x0D])
          (Some (USBError (ascii ''No such device'')))])"
    by simp
  from good have d: "writes (snd (send ?c (ascii ''*RST'') [])) =
      writes [] @ [(OUT_ENDPOINT, ascii ''*RST'' @ [0x0D])]"
    by blast
  have e: "utf8_encode [0x2A, 0x52, 0x53, 0x54, 0x0D] = Inr [0x2A, 0x52, 0x53, 0x54, 0x0D]"
    by (simp add: utf8_encode_char_def)
  have lit: "ascii ''*RST'' @ [0x0D] = [0x2A, 0x52, 0x53, 0x54, 0x0D]" "OUT_ENDPOINT = 0x03"
    "transmitted [] = []" "writes [] = []"
    by (simp_all add: ascii_def OUT_ENDPOINT_def transmitted_def writes_def)
  from a b c d e show ?thesis
    unfolding lit by simp
qed

text \<open>
  C3. When \<open>usb.core.find\<close> finds no device with the given vendor and product
  identifiers, the constructor raises the \<open>ValueError\<close> "OWON AG051 not found ..."
  (the error the specification calls \<open>DeviceNotFoundError\<close>); the search is the only
  USB operation made: no configuration, no write, no read, and no second search.
\<close>

theorem init_without_device_raises:
  "bus vid pid = None \<Longrightarrow>
   init bus vid pid tmo tr =
     (Inl (ValueError (ascii ''OWON AG051 not found. Check USB connection and driver (WinUSB).'')),
      tr @ [Find vid pid False])"
  by (simp add: init_def bind_io_def usb_core_find_def raise_io_def)

theorem init_without_device_raises_witness:
  "init empty_bus 0x5345 0x1234 1000 [] =
     (Inl (ValueError (ascii ''OWON AG051 not found. Check USB connection and driver (WinUSB).'')),
      [Find 0x5345 0x1234 False])"
  using init_without_device_raises [of empty_bus "0x5345" "0x1234" 1000 "[]"]
  by (simp add: empty_bus_def)

text \<open>
  C6. A \<open>query\<close> makes exactly one write attempt, first, and after it at most one
  read attempt and no further write, whatever the outcomes: nothing is retried.
  \<open>send\<close> and everything built on it (\<open>reset\<close>, the setters, the output
  switches, \<open>configure_waveform\<close>) make no read attempt.
\<close>

theorem query_one_write_at_most_one_read:
  "(\<exists>w rest. snd (query self cmd tr) = tr @ w # rest \<and>
       write_of w = [(OUT_ENDPOINT, cmd @ CR)] \<and> writes rest = [] \<and> length (reads rest) \<le> 1) \<and>
   reads (snd (send self cmd tr)) = reads tr \<and>
   reads (snd (reset self tr)) = reads tr \<and>
   reads (snd (set_function self shape tr)) = reads tr \<and>
   reads (snd (set_frequency self freq tr)) = reads tr \<and>
   reads (snd (set_amplitude self ampl tr)) = reads tr \<and>
   reads (snd (set_offset self offset tr)) = reads tr \<and>
   reads (snd (output_on self tr)) = reads tr \<and>
   reads (snd (output_off self tr)) = reads tr \<and>
   reads (snd (configure_waveform self shape freq ampl offset tr)) = reads tr"
proof -
  have "\<exists>w rest. snd (query self cmd tr) = tr @ w # rest \<and>
       write_of w = [(OUT_ENDPOINT, cmd @ CR)] \<and> writes rest = [] \<and> length (reads rest) \<le> 1"
    by (cases self tr cmd rule: query_cases) (simp_all add: writes_def reads_def)
  moreover have "reads (snd (reset self tr)) = reads tr"
    unfolding reset_def by (intro reads_bind reads_send reads_time_sleep)
  ultimately show ?thesis
    by (simp add: reads_send reads_configure_waveform set_function_def set_frequency_def
        set_amplitude_def set_offset_def output_on_def output_off_def)
qed

theorem query_one_write_at_most_one_read_witness:
  "length (writes (snd (query (controller silent_device) (ascii ''*IDN?'') []))) = 1 \<and>
   length (reads (snd (query (controller silent_device) (ascii ''*IDN?'') []))) \<le> 1 \<and>
   reads (snd (send (controller idn_device) (ascii ''*RST'') [])) = []"
proof -
  obtain w rest where
    "snd (query (controller silent_device) (ascii ''*IDN?'') []) = [] @ w # rest"
    "write_of w = [(OUT_ENDPOINT, ascii ''*IDN?'' @ CR)]" "writes rest = []"
    "length (reads rest) \<le> 1"
    and "reads (snd (send (controller idn_device) (ascii ''*RST'') [])) = reads []"
    using query_one_write_at_most_one_read
            [of "controller silent_device" "ascii ''*IDN?''" "[]"]
          query_one_write_at_most_one_read
            [of "controller idn_device" "ascii ''*RST''" "[]"]
    by blast
  then show ?thesis
    by (cases w) (simp_all add: writes_def reads_def)
qed

text \<open>
  C8. \<open>reset\<close> sends \<open>*RST\<close> and, when the write succeeded, waits the 50 ms of
  \<open>send\<close> and then 500 ms of its own before it returns; an ordinary \<open>send\<close> that
  succeeds is followed by the 50 ms only, a shorter delay than the last one of
  \<open>reset\<close>.
\<close>

theorem reset_settle_delay:
  "reset self tr =
     (case dev_write (dev self) tr OUT_ENDPOINT (ascii ''*RST'' @ CR) of
        None \<Rightarrow>
          (Inr (), tr @ [Write OUT_ENDPOINT (ascii ''*RST'' @ CR) None, Sleep 50, Sleep 500])
      | Some e \<Rightarrow> (Inl e, tr @ [Write OUT_ENDPOINT (ascii ''*RST'' @ CR) (Some e)])) \<and>
   (fst (reset self tr) = Inr () \<longrightarrow> delays (snd (reset self tr)) = delays tr @ [50, 500]) \<and>
   (fst (send self cmd tr) = Inr () \<longrightarrow> delays (snd (send self cmd tr)) = delays tr @ [50]) \<and>
   (fst (reset self tr) = Inr () \<and> fst (send self cmd tr) = Inr () \<longrightarrow>
      last (delays (snd (send self cmd tr))) < last (delays (snd (reset self tr))))"
  by (simp add: reset_def bind_io_def send_run time_sleep_def delays_def split: option.splits)

theorem reset_settle_delay_witness:
  "reset (controller idn_device) [] =
     (Inr (), [Write 0x03 [0x2A, 0x52, 0x53, 0x54, 0x0D] None, Sleep 50, Sleep 500]) \<and>
   delays (snd (reset (controller idn_device) [])) = [50, 500] \<and>
   delays (snd (send (controller idn_device) (ascii ''*RST'') [])) = [50]"
  using reset_settle_delay [of "controller idn_device" "[]" "ascii ''*RST''"]
  by (simp add: controller_def idn_device_def ascii_def CR_def OUT_ENDPOINT_def delays_def
      send_run)

text \<open>
  C9. The read of a \<open>query\<close> always asks for 4096 bytes, whatever the controller
  object and whatever the arguments it was constructed with (the constructor's own
  identity query included). When the device has more to offer, \<open>query\<close> works on
  the first 4096 bytes only.
\<close>

theorem query_read_length_is_4096:
  "(\<exists>k\<le>1. reads (snd (query self cmd tr)) =
            reads tr @ replicate k (IN_ENDPOINT, 4096, timeout self)) \<and>
   (\<exists>k\<le>1. reads (snd (init bus vid pid tmo tr)) =
            reads tr @ replicate k (IN_ENDPOINT, 4096, tmo)) \<and>
   (dev_write (dev self) tr OUT_ENDPOINT (cmd @ CR) = None \<and>
    dev_read (dev self) (tr @ [Write OUT_ENDPOINT (cmd @ CR) None]) IN_ENDPOINT 4096
      (timeout self) = Inr resp \<longrightarrow>
    query self cmd tr =
      (map_sum id py_strip (utf8_decode Ignore (take 4096 resp)),
       tr @ [Write OUT_ENDPOINT (cmd @ CR) None,
             Read IN_ENDPOINT 4096 (timeout self) (Inr (take 4096 resp))]))"
proof -
  have "query self cmd tr =
      (map_sum id py_strip (utf8_decode Ignore (take 4096 resp)),
       tr @ [Write OUT_ENDPOINT (cmd @ CR) None,
             Read IN_ENDPOINT 4096 (timeout self) (Inr (take 4096 resp))])"
    if "dev_write (dev self) tr OUT_ENDPOINT (cmd @ CR) = None"
      and "dev_read (dev self) (tr @ [Write OUT_ENDPOINT (cmd @ CR) None]) IN_ENDPOINT 4096
             (timeout self) = Inr resp"
  proof -
    obtain s where s: "utf8_decode Ignore (take 4096 resp) = Inr s"
      using utf8_decode_ignore_total by blast
    with that show ?thesis by (simp add: query_read_data)
  qed
  with reads_query reads_init show ?thesis by blast
qed

theorem query_read_length_is_4096_witness:
  "query (controller verbose_device) (ascii ''*IDN?'') [] =
     (Inr (replicate 4096 0x41),
      [Write 0x03 [0x2A, 0x49, 0x44, 0x4E, 0x3F, 0x0D] None,
       Read 0x81 4096 1000 (Inr (replicate 4096 0x41))])"
proof -
  have "utf8_decode Ignore (replicate 4096 0x41) = Inr (replicate 4096 0x41)"
    by (simp add: utf8_decode_ascii list_all_iff)
  moreover have "py_strip (replicate 4096 0x41) = replicate 4096 0x41"
    by (simp add: py_strip_def py_isspace_def dropWhile_replicate)
  ultimately show ?thesis
    using query_read_length_is_4096
            [of "controller verbose_device" "ascii ''*IDN?''" "[]" empty_bus 0 0 0
                "replicate 5000 0x41"]
    by (simp add: controller_def verbose_device_def ascii_def CR_def OUT_ENDPOINT_def
        IN_ENDPOINT_def)
qed

text \<open>
  C10. The write of a \<open>query\<close> comes first and unconditionally. Whenever \<open>query\<close>
  returns a string, the empty string of a timed-out read included, the command and its
  terminator have been transmitted before the read was attempted.
\<close>

theorem query_empty_result_after_transmission:
  "(\<exists>r rest. snd (query self cmd tr) = tr @ Write OUT_ENDPOINT (cmd @ CR) r # rest) \<and>
   (fst (query self cmd tr) = Inr s \<longrightarrow>
      transmitted (snd (query self cmd tr)) = transmitted tr @ [(OUT_ENDPOINT, cmd @ CR)]) \<and>
   (dev_write (dev self) tr OUT_ENDPOINT (cmd @ CR) = None \<and>
    dev_read (dev self) (tr @ [Write OUT_ENDPOINT (cmd @ CR) None]) IN_ENDPOINT 4096
      (timeout self) = Inl USBTimeoutError \<longrightarrow>
      query self cmd tr =
        (Inr [], tr @ [Write OUT_ENDPOINT (cmd @ CR) None,
                       Read IN_ENDPOINT 4096 (timeout self) (Inl USBTimeoutError)]))"
  by (cases self tr cmd rule: query_cases) (simp_all add: transmitted_def)

theorem query_empty_result_after_transmission_witness:
  "fst (query (controller silent_device) (ascii ''*RST'') []) = Inr [] \<and>
   transmitted (snd (query (controller silent_device) (ascii ''*RST'') [])) =
     [(0x03, [0x2A, 0x52, 0x53, 0x54, 0x0D])]"
  using query_empty_result_after_transmission
          [of "controller silent_device" "ascii ''*RST''" "[]" "[]"]
  by (simp add: controller_def silent_device_def ascii_def CR_def OUT_ENDPOINT_def
      transmitted_def)

text \<open>
  C7. \<open>configure_waveform\<close> has no rollback. When the first \<open>n\<close> sends succeed
  and the write of the next one raises \<open>e\<close>, the call raises \<open>e\<close> unchanged; the
  first \<open>n\<close> commands have been transmitted and stay so, the failed write is the last
  event, and the remaining commands are never attempted.
\<close>

theorem configure_waveform_no_rollback:
  fixes shape freq ampl offset
  defines "cmds \<equiv> waveform_commands shape freq ampl offset"
  assumes n: "n < 4"
    and ok: "\<forall>i<n. dev_write (dev self) (tr @ concat (map send_events (take i cmds)))
                     OUT_ENDPOINT (cmds ! i @ CR) = None"
    and bad: "dev_write (dev self) (tr @ concat (map send_events (take n cmds)))
                OUT_ENDPOINT (cmds ! n @ CR) = Some e"
  shows "configure_waveform self shape freq ampl offset tr =
           (Inl e, tr @ concat (map send_events (take n cmds)) @
                   [Write OUT_ENDPOINT (cmds ! n @ CR) (Some e)]) \<and>
         transmitted (snd (configure_waveform self shape freq ampl offset tr)) =
           transmitted tr @ map (\<lambda>c. (OUT_ENDPOINT, c @ CR)) (take n cmds) \<and>
         writes (snd (configure_waveform self shape freq ampl offset tr)) =
           writes tr @ map (\<lambda>c. (OUT_ENDPOINT, c @ CR)) (take (Suc n) cmds)"
proof -
  obtain c0 c1 c2 c3 where cmds: "cmds = [c0, c1, c2, c3]"
    by (simp add: cmds_def waveform_commands_def)
  have run: "configure_waveform self shape freq ampl offset =
     bind_io (send self c0) (\<lambda>_. bind_io (send self c1) (\<lambda>_.
     bind_io (send self c2) (\<lambda>_. send self c3)))"
    using cmds by (simp add: configure_waveform_run cmds_def)
  have step: "dev_write (dev self) (tr @ concat (map send_events (take i cmds)))
                     OUT_ENDPOINT (cmds ! i @ CR) = None" if "i < n" for i
    using ok that by blast
  from n consider "n = 0" | "n = 1" | "n = 2" | "n = 3" by linarith
  then have main: "configure_waveform self shape freq ampl offset tr =
           (Inl e, tr @ concat (map send_events (take n cmds)) @
                   [Write OUT_ENDPOINT (cmds ! n @ CR) (Some e)])"
  proof cases
    case 1
    with bad show ?thesis
      by (simp add: run cmds bind_io_def send_failed)
  next
    case 2
    with bad step [of 0] show ?thesis
      by (simp add: run cmds bind_io_def send_failed send_ok)
  next
    case 3
    with bad step [of 0] step [of 1] show ?thesis
      by (simp add: run cmds bind_io_def send_failed send_ok eval_nat_numeral)
  next
    case 4
    with bad step [of 0] step [of 1] step [of 2] show ?thesis
      by (simp add: run cmds bind_io_def send_failed send_ok eval_nat_numeral)
  qed
  have tx: "transmitted (concat (map send_events cs)) = map (\<lambda>c. (OUT_ENDPOINT, c @ CR)) cs" for cs
    by (induction cs) (simp_all add: transmitted_append transmitted_send_events, simp add: transmitted_def)
  have wr: "writes (concat (map send_events cs)) = map (\<lambda>c. (OUT_ENDPOINT, c @ CR)) cs" for cs
    by (induction cs) (simp_all add: writes_append writes_send_events, simp add: writes_def)
  have "take (Suc n) cmds = take n cmds @ [cmds ! n]"
    using n by (intro take_Suc_conv_app_nth) (simp add: cmds)
  then show ?thesis
    by (simp add: main transmitted_append writes_append tx wr)
       (simp add: transmitted_def writes_def)
qed

theorem configure_waveform_no_rollback_witness:
  "configure_waveform (controller second_write_fails_device) (PyStr (ascii ''SINE''))
     (PyFloat (Finite False [1] 4)) (PyFloat (Finite False [2] 1))
     (PyFloat (Finite False [0] 1)) [] =
   (Inl (USBError (ascii ''Input/Output Error'')),
    [Write 0x03 (ascii '':FUNCtion SINE'' @ CR) None, Sleep 50,
     Write 0x03 (ascii '':FUNCtion:FREQuency 1000.0'' @ CR)
       (Some (USBError (ascii ''Input/Output Error'')))])"
  using configure_waveform_no_rollback
          [where n = 1 and self = "controller second_write_fails_device" and tr = "[]"
             and shape = "PyStr (ascii ''SINE'')" and freq = "PyFloat (Finite False [1] 4)"
             and ampl = "PyFloat (Finite False [2] 1)" and offset = "PyFloat (Finite False [0] 1)"
             and e = "USBError (ascii ''Input/Output Error'')"]
  by (simp add: controller_def second_write_fails_device_def waveform_commands_def
      send_events_def writes_def OUT_ENDPOINT_def ascii_def CR_def digit_chars_def
      replicate_numeral)

text \<open>
  C4, as the code has it. A \<open>configure_waveform\<close> that returns has made exactly four
  sends, in the order function, frequency, amplitude, offset, each followed by its
  50 ms delay, with the commands \<open>:FUNCtion\<close>, \<open>:FUNCtion:FREQuency\<close>,
  \<open>:FUNCtion:AMPLitude\<close> and \<open>:FUNCtion:OFFSet\<close>, a space and the parameter as
  \<open>str()\<close> renders it: a string as it is, an integer in plain decimal, and a float
  in plain decimal exactly when its decimal point position lies in \<open>-3 .. 16\<close>
  (\<open>1000.0\<close> gives \<open>1000.0\<close>), in exponent notation otherwise.
\<close>

theorem configure_waveform_four_sends:
  "(fst (configure_waveform self shape freq ampl offset tr) = Inr () \<longrightarrow>
      snd (configure_waveform self shape freq ampl offset tr) =
        tr @ [Write OUT_ENDPOINT (ascii '':FUNCtion '' @ py_str shape @ CR) None, Sleep 50,
              Write OUT_ENDPOINT (ascii '':FUNCtion:FREQuency '' @ py_str freq @ CR) None, Sleep 50,
              Write OUT_ENDPOINT (ascii '':FUNCtion:AMPLitude '' @ py_str ampl @ CR) None, Sleep 50,
              Write OUT_ENDPOINT (ascii '':FUNCtion:OFFSet '' @ py_str offset @ CR) None, Sleep 50]) \<and>
   py_str (PyStr s) = s \<and>
   plain_decimal_text (py_str (PyInt i)) \<and>
   (ds \<noteq> [] \<and> (\<forall>d\<in>set ds. d < 10) \<longrightarrow>
      plain_decimal_text (py_str (PyFloat (Finite sign ds decpt))) = (-4 < decpt \<and> decpt \<le> 16))"
proof (intro conjI impI)
  assume "fst (configure_waveform self shape freq ampl offset tr) = Inr ()"
  then show "snd (configure_waveform self shape freq ampl offset tr) =
        tr @ [Write OUT_ENDPOINT (ascii '':FUNCtion '' @ py_str shape @ CR) None, Sleep 50,
              Write OUT_ENDPOINT (ascii '':FUNCtion:FREQuency '' @ py_str freq @ CR) None, Sleep 50,
              Write OUT_ENDPOINT (ascii '':FUNCtion:AMPLitude '' @ py_str ampl @ CR) None, Sleep 50,
              Write OUT_ENDPOINT (ascii '':FUNCtion:OFFSet '' @ py_str offset @ CR) None, Sleep 50]"
    by (simp add: configure_waveform_def set_function_def set_frequency_def set_amplitude_def
        set_offset_def bind_io_def send_run split: option.splits)
next
  show "py_str (PyStr s) = s" by simp
next
  show "plain_decimal_text (py_str (PyInt i))" by (simp add: plain_decimal_int_str)
next
  assume "ds \<noteq> [] \<and> (\<forall>d\<in>set ds. d < 10)"
  then show "plain_decimal_text (py_str (PyFloat (Finite sign ds decpt))) =
               (-4 < decpt \<and> decpt \<le> 16)"
    using plain_decimal_float_positional [of ds decpt sign]
      not_plain_decimal_float_exponent [of ds decpt sign]
    by (cases "-4 < decpt \<and> decpt \<le> 16") (simp_all del: float_repr.simps, linarith)
qed

theorem configure_waveform_four_sends_witness:
  "configure_waveform (controller idn_device) (PyStr (ascii ''SINE''))
     (PyFloat (Finite False [1] 4)) (PyFloat (Finite False [2] 1))
     (PyFloat (Finite False [0] 1)) [] =
   (Inr (),
    [Write 0x03 (ascii '':FUNCtion SINE'' @ CR) None, Sleep 50,
     Write 0x03 (ascii '':FUNCtion:FREQuency 1000.0'' @ CR) None, Sleep 50,
     Write 0x03 (ascii '':FUNCtion:AMPLitude 2.0'' @ CR) None, Sleep 50,
     Write 0x03 (ascii '':FUNCtion:OFFSet 0.0'' @ CR) None, Sleep 50]) \<and>
   plain_decimal_text (py_str (PyFloat (Finite False [1] 4))) \<and>
   py_str (PyFloat (Finite False [1] 4)) = ascii ''1000.0''"
proof -
  have ok: "fst (configure_waveform (controller idn_device) (PyStr (ascii ''SINE''))
     (PyFloat (Finite False [1] 4)) (PyFloat (Finite False [2] 1))
     (PyFloat (Finite False [0] 1)) []) = Inr ()"
    by (simp add: configure_waveform_def set_function_def set_frequency_def set_amplitude_def
        set_offset_def bind_io_def send_run controller_def idn_device_def)
  have str: "py_str (PyFloat (Finite False [1] 4)) = ascii ''1000.0''"
    "py_str (PyFloat (Finite False [2] 1)) = ascii ''2.0''"
    "py_str (PyFloat (Finite False [0] 1)) = ascii ''0.0''"
    by (simp_all add: ascii_def digit_chars_def replicate_numeral)
  from ok str
    configure_waveform_four_sends
      [of "controller idn_device" "PyStr (ascii ''SINE'')" "PyFloat (Finite False [1] 4)"
          "PyFloat (Finite False [2] 1)" "PyFloat (Finite False [0] 1)" "[]" "[]" 0
          "[1]" False 4]
  show ?thesis
    by (simp add: prod_eq_iff OUT_ENDPOINT_def ascii_def CR_def)
qed

text \<open>
  The claim C4 as stated, that every parameter is interpolated as plain decimal text,
  fails for the offset \<open>0.00005\<close>: the command sent is \<open>:FUNCtion:OFFSet 5e-05\<close>.
\<close>

theorem configure_waveform_plain_decimal_counterexample:
  "configure_waveform (controller idn_device) (PyStr (ascii ''SINE''))
     (PyFloat (Finite False [1] 4)) (PyFloat (Finite False [2] 1))
     (PyFloat (Finite False [5] (-4))) [] =
   (Inr (),
    [Write 0x03 (ascii '':FUNCtion SINE'' @ CR) None, Sleep 50,
     Write 0x03 (ascii '':FUNCtion:FREQuency 1000.0'' @ CR) None, Sleep 50,
     Write 0x03 (ascii '':FUNCtion:AMPLitude 2.0'' @ CR) None, Sleep 50,
     Write 0x03 (ascii '':FUNCtion:OFFSet 5e-05'' @ CR) None, Sleep 50]) \<and>
   \<not> plain_decimal_text (ascii ''5e-05'')"
proof -
  have "\<not> plain_decimal_text (ascii ''5e-05'')"
    by (simp add: ascii_def plain_decimal_text_def unsigned_decimal_text_def is_digit_def)
  moreover have "configure_waveform (controller idn_device) (PyStr (ascii ''SINE''))
     (PyFloat (Finite False [1] 4)) (PyFloat (Finite False [2] 1))
     (PyFloat (Finite False [5] (-4))) [] =
   (Inr (),
    [Write 0x03 (ascii '':FUNCtion SINE'' @ CR) None, Sleep 50,
     Write 0x03 (ascii '':FUNCtion:FREQuency 1000.0'' @ CR) None, Sleep 50,
     Write 0x03 (ascii '':FUNCtion:AMPLitude 2.0'' @ CR) None, Sleep 50,
     Write 0x03 (ascii '':FUNCtion:OFFSet 5e-05'' @ CR) None, Sleep 50])"
    by (simp add: configure_waveform_def set_function_def set_frequency_def set_amplitude_def
        set_offset_def bind_io_def send_run controller_def idn_device_def OUT_ENDPOINT_def
        ascii_def CR_def digit_chars_def replicate_numeral float_exponent_def digits10.simps)
  ultimately show ?thesis by simp
qed



end
